theory Spec2Isabelle
  imports Complex_Main "HOL-Library.Word"
begin

section \<open>Compile-time reflection of aggregates (mirror)\<close>

text \<open>
  The library is a C++20 template metaprogram. Its three source files are
  \<^verbatim>\<open>src/meta/mirror.hh\<close> (the generator's template, with the placeholders
  \<^verbatim>\<open>(@limit@)\<close> and \<^verbatim>\<open>(@generate_specializations@)\<close>), \<^verbatim>\<open>src/src/mirror.hh\<close>
  (the header variant, limit 127) and \<^verbatim>\<open>src/src/mirror.cc\<close> (the module variant,
  limit 32). Up to layout and the spelling of \<^verbatim>\<open>size_t\<close>, the three files agree on
  everything but the limit and the enumerated branches.

  The program computes on types at compile time. A template over a type \<open>T\<close> becomes a
  HOL function over a description of \<open>T\<close>; a non-type template parameter of type
  \<^verbatim>\<open>size_t\<close> becomes a 64-bit word; a failed constraint, a failed
  \<^verbatim>\<open>static_assert\<close>, an ill-formed declaration and a template recursion without
  end become error values, since each of them stops the compilation.
\<close>

subsection \<open>Sizes and compile errors\<close>

type_synonym size_t = "64 word"

text \<open>The macro \<^verbatim>\<open>CHAR_BIT\<close> comes from the C library; it is 8 on the platforms whose
  \<^verbatim>\<open>size_t\<close> has 64 bits.\<close>

definition CHAR_BIT :: size_t where
  "CHAR_BIT = 8"

datatype compile_error =
    ConstraintNotSatisfied
  | StaticAssertFailed
  | InstantiationDiverges
  | IllFormedBinding

subsection \<open>Class types as the program sees them\<close>

text \<open>
  The source asks the compiler six things about \<open>T\<close>: whether it is an aggregate,
  whether it is default-initializable, copy-constructible, move-constructible, what
  \<^verbatim>\<open>sizeof(T)\<close> is, and whether \<^verbatim>\<open>T{u0, ..., uk}\<close> is well-formed for probes \<open>u\<close> of
  the type \<^verbatim>\<open>universal\<close>; \<^verbatim>\<open>reflect\<close> also destructures an object of type \<open>T\<close> by a
  structured binding. A class type is described by what decides these answers.

  The description covers class types without base classes and virtual functions whose
  non-static data members are public, are neither references nor bit-fields, and are
  not of type \<open>T\<close> itself. For them the language fixes the answers as follows.
  \<^item> Such a class is an aggregate exactly when it has no user-declared or inherited
    constructor.
  \<^item> A probe \<^verbatim>\<open>universal<T, I>\<close> has a conversion function template to every type
    \<open>U\<close> other than \<open>T\<close>. No conversion function returns an array. So in the aggregate
    initialization \<^verbatim>\<open>T{u0, ..., uk}\<close> a probe initializes a whole member of non-array
    type (\<open>Object\<close>: a scalar, a pointer, an enumeration, a class), while for a
    member of array type (\<open>Array n t\<close>) braces are elided and the probes initialize
    its \<open>n\<close> elements one after another.
  \<^item> A class with a user-declared constructor is initialized from \<^verbatim>\<open>T{u0, ..., uk}\<close> by
    overload resolution among its constructors. The probes never reach the implicit copy
    and move constructors, whose parameter is a reference to \<open>T\<close>. Which numbers of
    probes select a constructor depends on the constructors' signatures; these numbers are
    given with the type (\<open>ctor_arities\<close>) and play no role for an aggregate.
  \<^item> \<^verbatim>\<open>sizeof(T)\<close>, default-initializability and copy/move-constructibility depend
    on the member types and on the ABI; they are given with the type. Members declared
    \<^verbatim>\<open>[[no_unique_address]]\<close> may share their storage, so the size need not grow with
    the number of members.
\<close>

datatype member_type = Object | Array nat member_type

record class_type =
  user_declared_ctors :: nat
  ctor_arities :: "nat list"
  default_initializable :: bool
  copy_constructible :: bool
  move_constructible :: bool
  members :: "member_type list"
  sizeof :: size_t

definition is_aggregate_v :: "class_type \<Rightarrow> bool" where
  "is_aggregate_v T = (user_declared_ctors T = 0)"

text \<open>The number of initializer clauses one member takes up when braces are elided,
  and the number the whole aggregate accepts.\<close>

fun slots :: "member_type \<Rightarrow> nat" where
  "slots Object = 1"
| "slots (Array n t) = n * slots t"

definition init_capacity :: "class_type \<Rightarrow> nat" where
  "init_capacity T = sum_list (map slots (members T))"

subsection \<open>The concept \<^verbatim>\<open>reflexible\<close>\<close>

text \<open>
  \<^verbatim>\<open>concept reflexible =
      (std::is_aggregate_v<T> && std::default_initializable<T>) &&
      (std::copy_constructible<T> || std::move_constructible<T>);\<close>
  The module variant drops the first pair of parentheses, which \<^verbatim>\<open>&&\<close> implies.
\<close>

definition reflexible :: "class_type \<Rightarrow> bool" where
  "reflexible T =
     ((is_aggregate_v T \<and> default_initializable T) \<and>
      (copy_constructible T \<or> move_constructible T))"

subsection \<open>Counting the non-static data members\<close>

text \<open>
  \<^verbatim>\<open>std::make_index_sequence<N>\<close> is the pack \<open>0, ..., N - 1\<close>;
  \<^verbatim>\<open>constructible_from<T, Indices...>\<close> holds when \<open>T\<close> can be list-initialized from
  one probe per index. For an aggregate that means that there are no more probes than
  initializer slots; for a class with constructors it means that a constructor takes
  that many probes. \<^verbatim>\<open>is_constructible<T, N>\<close> expands the one into the other.
\<close>

definition index_sequence :: "size_t \<Rightarrow> size_t list" where
  "index_sequence N = map of_nat [0..<unat N]"

definition constructible_from :: "class_type \<Rightarrow> size_t list \<Rightarrow> bool" where
  "constructible_from T Indices =
     (if is_aggregate_v T then length Indices \<le> init_capacity T
      else length Indices \<in> set (ctor_arities T))"

definition is_constructible :: "class_type \<Rightarrow> size_t \<Rightarrow> bool" where
  "is_constructible T N = constructible_from T (index_sequence N)"

text \<open>\<^verbatim>\<open>median = ((L / 2) + (R / 2) + ((1 + (L % 2) + (R % 2)) / 2))\<close> on \<^verbatim>\<open>size_t\<close>.\<close>

definition median :: "size_t \<Rightarrow> size_t \<Rightarrow> size_t" where
  "median L R = (L div 2) + (R div 2) + ((1 + (L mod 2) + (R mod 2)) div 2)"

text \<open>
  \<^verbatim>\<open>bisect<T, L, M, R>\<close> instantiates itself recursively. The type enters only through
  \<^verbatim>\<open>is_constructible<T, M>\<close>, so the function takes that predicate. \<open>M - 1\<close> wraps
  around at \<open>M = 0\<close> as \<^verbatim>\<open>size_t\<close> does. Nothing in the template bounds the
  recursion, so the result is optional: \<open>None\<close> is a recursion that never ends.
\<close>

partial_function (option) bisect ::
  "(size_t \<Rightarrow> bool) \<Rightarrow> size_t \<Rightarrow> size_t \<Rightarrow> size_t \<Rightarrow> size_t option" where
  "bisect p L M R =
     (if L = R then Some L
      else if p M then bisect p M (median M R) R
      else bisect p L (median L (M - 1)) (M - 1))"

declare bisect.simps [code]

text \<open>
  \<^verbatim>\<open>count_data_members\<close>. Its local constant \<^verbatim>\<open>bit_size\<close> is the product
  \<^verbatim>\<open>sizeof(T) * CHAR_BIT\<close> in \<^verbatim>\<open>size_t\<close>, which wraps around; the \<^verbatim>\<open>static_assert\<close>
  divides it by \<^verbatim>\<open>sizeof(T)\<close> again. No C++ type has size 0, where the division would
  not be a constant expression.
\<close>

definition bit_size :: "class_type \<Rightarrow> size_t" where
  "bit_size T = sizeof T * CHAR_BIT"

definition count_data_members :: "class_type \<Rightarrow> compile_error + size_t" where
  "count_data_members T =
     (if sizeof T = 0 \<or> bit_size T div sizeof T \<noteq> CHAR_BIT then Inl StaticAssertFailed
      else case bisect (is_constructible T) 0 (median 0 (bit_size T)) (bit_size T) of
             None \<Rightarrow> Inl InstantiationDiverges
           | Some n \<Rightarrow> Inr n)"

text \<open>\<^verbatim>\<open>template <reflexible T> constexpr auto data_member_count =
  detail::count_data_members<T>();\<close>\<close>

definition data_member_count :: "class_type \<Rightarrow> compile_error + size_t" where
  "data_member_count T =
     (if reflexible T then count_data_members T else Inl ConstraintNotSatisfied)"

subsection \<open>Objects, references and \<^verbatim>\<open>reflect\<close>\<close>

text \<open>
  An object of class type is given by its type and the storage of each of its
  non-static data members, in declaration order. A reference is the address it refers
  to; a tuple of references is a list of addresses. Values live in a store.
\<close>

type_synonym addr = nat

record object =
  class_of :: class_type
  member_addrs :: "addr list"



definition instance_ok :: "object \<Rightarrow> bool" where
  "instance_ok x =
     (length (member_addrs x) = length (members (class_of x)) \<and> distinct (member_addrs x))"

text \<open>
  \<^verbatim>\<open>auto& [e00, ..., e<n-1>] = x;\<close> is well-formed when \<open>n\<close> is the number of non-static
  data members of the class of \<open>x\<close>, and then names the members themselves, in
  declaration order. \<^verbatim>\<open>std::tie\<close> returns the tuple of lvalue references to its
  arguments.
\<close>

definition structured_binding :: "nat \<Rightarrow> object \<Rightarrow> compile_error + addr list" where
  "structured_binding n x =
     (if n = length (members (class_of x)) then Inr (member_addrs x)
      else Inl IllFormedBinding)"

definition tie :: "addr list \<Rightarrow> addr list" where
  "tie es = es"

text \<open>
  \<^verbatim>\<open>reflect\<close> as the generator's template has it: the constraint
  \<^verbatim>\<open>requires(data_member_count<T> <= (@limit@))\<close>, the branch for 0, and the generated
  branches. In both generated files the branches are those for \<open>1, ..., limit\<close>, and
  the branch for \<open>n\<close> binds the \<open>n\<close> names \<^verbatim>\<open>e00, e01, ...\<close> and ties them in the
  same order; so one of them is taken whenever the constraint holds and the count is
  not 0. The header variant declares the return type \<^verbatim>\<open>decltype(auto)\<close> and the module
  variant \<^verbatim>\<open>auto\<close>; the returned expression is a prvalue tuple, so both return the
  tuple by value.
\<close>

definition reflect :: "size_t \<Rightarrow> object \<Rightarrow> compile_error + addr list" where
  "reflect limit x =
     (case data_member_count (class_of x) of
        Inl e \<Rightarrow> Inl e
      | Inr n \<Rightarrow>
          if \<not> n \<le> limit then Inl ConstraintNotSatisfied
          else if n = 0 then Inr []
          else (case structured_binding (unat n) x of
                  Inl e \<Rightarrow> Inl e
                | Inr es \<Rightarrow> Inr (tie es)))"

definition reflect_header :: "object \<Rightarrow> compile_error + addr list" where
  "reflect_header x = reflect 127 x"

definition reflect_module :: "object \<Rightarrow> compile_error + addr list" where
  "reflect_module x = reflect 32 x"

subsection \<open>Sample types and objects\<close>

text \<open>\<^verbatim>\<open>struct point3 { int a = 1; int b = 2; int c = 3; };\<close>\<close>

definition point3 :: class_type where
  "point3 = \<lparr>user_declared_ctors = 0, ctor_arities = [], default_initializable = True,
     copy_constructible = True, move_constructible = True,
     members = [Object, Object, Object], sizeof = 12\<rparr>"

definition point3_obj :: object where
  "point3_obj = \<lparr>class_of = point3, member_addrs = [100, 104, 108]\<rparr>"

text \<open>\<^verbatim>\<open>struct int_pair { int a[2]; };\<close>: one member, an array of two.\<close>

definition int_pair :: class_type where
  "int_pair = \<lparr>user_declared_ctors = 0, ctor_arities = [], default_initializable = True,
     copy_constructible = True, move_constructible = True,
     members = [Array 2 Object], sizeof = 8\<rparr>"

definition int_pair_obj :: object where
  "int_pair_obj = \<lparr>class_of = int_pair, member_addrs = [200]\<rparr>"

text \<open>\<^verbatim>\<open>struct empty_struct {};\<close>\<close>

definition empty_struct :: class_type where
  "empty_struct = \<lparr>user_declared_ctors = 0, ctor_arities = [], default_initializable = True,
     copy_constructible = True, move_constructible = True,
     members = [], sizeof = 1\<rparr>"

definition empty_struct_obj :: object where
  "empty_struct_obj = \<lparr>class_of = empty_struct, member_addrs = []\<rparr>"

text \<open>\<^verbatim>\<open>struct with_ctor { int a; int b; with_ctor() = default; };\<close>\<close>

definition with_ctor :: class_type where
  "with_ctor = \<lparr>user_declared_ctors = 1, ctor_arities = [0], default_initializable = True,
     copy_constructible = True, move_constructible = True,
     members = [Object, Object], sizeof = 8\<rparr>"

text \<open>A class with 33 members of type \<^verbatim>\<open>int\<close>, one more than the module variant
  enumerates, and an object of it.\<close>

definition wide :: class_type where
  "wide = \<lparr>user_declared_ctors = 0, ctor_arities = [], default_initializable = True,
     copy_constructible = True, move_constructible = True,
     members = replicate 33 Object, sizeof = 132\<rparr>"

definition wide_obj :: object where
  "wide_obj = \<lparr>class_of = wide, member_addrs = map (\<lambda>i. 1000 + 4 * i) [0..<33]\<rparr>"

text \<open>
  \<^verbatim>\<open>struct E1 {}; ... struct E9 {};
  struct nine_empty { [[no_unique_address]] E1 e1; ... [[no_unique_address]] E9 e9; };\<close>
  Nine members of nine distinct empty classes, which all lie at offset 0; the size is 1.
\<close>

definition nine_empty :: class_type where
  "nine_empty = \<lparr>user_declared_ctors = 0, ctor_arities = [], default_initializable = True,
     copy_constructible = True, move_constructible = True,
     members = replicate 9 Object, sizeof = 1\<rparr>"


section \<open>The median and the binary search\<close>

lemma unat_parity_sum:
  "unat ((1::size_t) + L mod 2 + R mod 2) = 1 + unat L mod 2 + unat R mod 2"
  by (simp add: unat_word_ariths unat_mod)

lemma median_unat: "unat (median L R) = (unat L + unat R + 1) div 2"
proof -
  have l: "unat L < 2 ^ 64" and r: "unat R < 2 ^ 64"
    using unsigned_less [of L] unsigned_less [of R] by simp_all
  have "unat (median L R) =
      (unat L div 2 + unat R div 2 + (1 + unat L mod 2 + unat R mod 2) div 2) mod 2 ^ 64"
    unfolding median_def
    by (simp add: unat_word_ariths unat_div unat_mod unat_parity_sum mod_simps)
  also have "unat L div 2 + unat R div 2 + (1 + unat L mod 2 + unat R mod 2) div 2 =
      (unat L + unat R + 1) div 2"
    by presburger
  also have "\<dots> mod 2 ^ 64 = (unat L + unat R + 1) div 2"
    using l r by simp
  finally show ?thesis .
qed

lemma half_ceiling: "\<lceil>(real a + real b) / 2\<rceil> = int ((a + b + 1) div 2)"
proof (rule ceiling_unique)
  obtain q r where n: "a + b = 2 * q + r" and r: "r < 2"
    by (metis mod_less_divisor mult_div_mod_eq pos2)
  have q: "(a + b + 1) div 2 = q + r"
    using n r by presburger
  have ab: "real a + real b = 2 * real q + real r"
    using n by (metis of_nat_add of_nat_mult of_nat_numeral)
  show "of_int (int ((a + b + 1) div 2)) - 1 < (real a + real b) / 2"
    unfolding q ab using r by (cases "r = 0") auto
  show "(real a + real b) / 2 \<le> of_int (int ((a + b + 1) div 2))"
    unfolding q ab using r by (cases "r = 0") auto
qed

lemma median_bounds:
  assumes "L < R"
  shows "L < median L R" and "median L R \<le> R"
  using assms by (simp_all add: word_less_nat_alt word_le_nat_alt median_unat)

lemma median_pred:
  assumes "L < R"
  shows "unat (median L R - 1) = unat (median L R) - 1"
    and "L \<le> median L R - 1" and "median L R - 1 < R"
proof -
  have "median L R \<noteq> 0"
    using median_bounds(1) [OF assms] by (auto simp: word_less_nat_alt)
  then show u: "unat (median L R - 1) = unat (median L R) - 1"
    by (rule unat_minus_one)
  show "L \<le> median L R - 1" "median L R - 1 < R"
    using assms u by (simp_all add: word_less_nat_alt word_le_nat_alt median_unat)
qed

lemma interval_shrinks:
  assumes "L < R"
  shows "unat R - unat (median L R) < unat R - unat L"
    and "unat (median L R - 1) - unat L < unat R - unat L"
  using assms median_bounds [OF assms] median_pred [OF assms]
  by (simp_all add: word_less_nat_alt word_le_nat_alt)

lemma bisect_step_true:
  "L \<noteq> R \<Longrightarrow> p M \<Longrightarrow> bisect p L M R = bisect p M (median M R) R"
  by (subst bisect.simps) simp

lemma bisect_step_false:
  "L \<noteq> R \<Longrightarrow> \<not> p M \<Longrightarrow> bisect p L M R = bisect p L (median L (M - 1)) (M - 1)"
  by (subst bisect.simps) simp

lemma bisect_returns:
  "L \<le> R \<Longrightarrow> \<exists>n. bisect p L (median L R) R = Some n \<and> L \<le> n \<and> n \<le> R"
proof (induction "unat R - unat L" arbitrary: L R rule: less_induct)
  case less
  show ?case
  proof (cases "L = R")
    case True
    then show ?thesis by (simp add: bisect.simps)
  next
    case False
    with less.prems have lt: "L < R" by simp
    let ?M = "median L R"
    note b = median_bounds [OF lt] median_pred [OF lt]
    show ?thesis
    proof (cases "p ?M")
      case True
      from less.hyps [OF interval_shrinks(1) [OF lt] b(2)] obtain n where
        "bisect p ?M (median ?M R) R = Some n" "?M \<le> n" "n \<le> R" by blast
      then show ?thesis
        using b(1) bisect_step_true [where p = p and M = "?M", OF False True] by (auto intro: exI [of _ n])
    next
      case np: False
      from less.hyps [OF interval_shrinks(2) [OF lt] b(4)] obtain n where
        "bisect p L (median L (?M - 1)) (?M - 1) = Some n" "L \<le> n" "n \<le> ?M - 1" by blast
      then show ?thesis
        using b(5) bisect_step_false [where p = p and M = "?M", OF False np] by (auto intro: exI [of _ n])
    qed
  qed
qed

lemma bisect_threshold:
  "L \<le> N \<Longrightarrow> N \<le> R \<Longrightarrow> (\<forall>k. L \<le> k \<and> k \<le> R \<longrightarrow> p k = (k \<le> N))
    \<Longrightarrow> bisect p L (median L R) R = Some N"
proof (induction "unat R - unat L" arbitrary: L R rule: less_induct)
  case less
  show ?case
  proof (cases "L = R")
    case True
    with less.prems have "N = L" by simp
    with True show ?thesis by (simp add: bisect.simps)
  next
    case False
    with less.prems have lt: "L < R" by simp
    let ?M = "median L R"
    note b = median_bounds [OF lt] median_pred [OF lt]
    show ?thesis
    proof (cases "p ?M")
      case True
      have MN: "?M \<le> N"
        using less.prems(3) b True by auto
      have "\<forall>k. ?M \<le> k \<and> k \<le> R \<longrightarrow> p k = (k \<le> N)"
        using less.prems(3) b(1) by auto
      from less.hyps [OF interval_shrinks(1) [OF lt] MN less.prems(2) this]
      show ?thesis
        using bisect_step_true [where p = p and M = "?M", OF False True] by simp
    next
      case np: False
      have "\<not> ?M \<le> N"
        using less.prems(3) b np by auto
      then have NM: "N \<le> ?M - 1"
        using b(3) by (simp add: word_less_nat_alt word_le_nat_alt)
      have "\<forall>k. L \<le> k \<and> k \<le> ?M - 1 \<longrightarrow> p k = (k \<le> N)"
        using less.prems(3) b(5) by auto
      from less.hyps [OF interval_shrinks(2) [OF lt] less.prems(1) NM this]
      show ?thesis
        using bisect_step_false [where p = p and M = "?M", OF False np] by simp
    qed
  qed
qed

lemma median_no_overflow:
  fixes L R :: size_t
  shows "unat (L div 2) + unat (R div 2) + unat ((1 + L mod 2 + R mod 2) div 2) < 2 ^ 64"
proof -
  have l: "unat L < 2 ^ 64" and r: "unat R < 2 ^ 64"
    using unsigned_less [of L] unsigned_less [of R] by simp_all
  have "unat (L div 2) + unat (R div 2) + unat ((1 + L mod 2 + R mod 2) div 2) =
      unat L div 2 + unat R div 2 + (1 + unat L mod 2 + unat R mod 2) div 2"
    by (simp add: unat_div unat_parity_sum)
  also have "\<dots> = (unat L + unat R + 1) div 2"
    by presburger
  also have "\<dots> < 2 ^ 64"
    using l r by simp
  finally show ?thesis .
qed

text \<open>
  Claim C10. For all \<open>L\<close> and \<open>R\<close> of the word type, \<open>median L R\<close> is the ceiling of
  \<open>(L + R) / 2\<close>, taken over the unbounded numbers, and none of the additions in it
  wraps around: the three summands together stay below \<open>2 ^ 64\<close>. Hence whenever
  \<open>L < R\<close>, \<open>L < median L R \<le> R\<close>; both intervals that a step of \<open>bisect\<close> on
  \<open>[L, R]\<close> with \<open>M = median L R\<close> can continue with, \<open>[M, R]\<close> and \<open>[L, M - 1]\<close>, are
  strictly shorter, and \<open>M - 1\<close> does not wrap; and the recursion returns for every
  interval \<open>L \<le> R\<close> and every predicate.
\<close>

theorem median_ceiling_bisect_terminates:
  "int (unat (median L R)) = \<lceil>(real (unat L) + real (unat R)) / 2\<rceil>
   \<and> unat (L div 2) + unat (R div 2) + unat ((1 + L mod 2 + R mod 2) div 2) < 2 ^ 64
   \<and> (L < R \<longrightarrow> L < median L R \<and> median L R \<le> R)
   \<and> (L < R \<longrightarrow> unat R - unat (median L R) < unat R - unat L
                \<and> L \<le> median L R - 1
                \<and> unat (median L R - 1) - unat L < unat R - unat L)
   \<and> (L \<le> R \<longrightarrow> (\<exists>n. bisect p L (median L R) R = Some n))"
proof -
  have "int (unat (median L R)) = \<lceil>(real (unat L) + real (unat R)) / 2\<rceil>"
    by (simp only: median_unat half_ceiling)
  moreover have "L \<le> R \<longrightarrow> (\<exists>n. bisect p L (median L R) R = Some n)"
    using bisect_returns [of L R p] by blast
  ultimately show ?thesis
    using median_no_overflow [of L R] median_bounds [of L R] median_pred(2) [of L R]
      interval_shrinks [of L R]
    by blast
qed

text \<open>The two largest values of \<^verbatim>\<open>size_t\<close>, whose sum does not fit.\<close>

theorem median_ceiling_bisect_terminates_witness:
  "(18446744073709551614 :: size_t) < 18446744073709551615
   \<and> median 18446744073709551614 18446744073709551615 = 18446744073709551615
   \<and> (18446744073709551614 :: size_t) < median 18446744073709551614 18446744073709551615
   \<and> (\<exists>n. bisect (\<lambda>k. True) 18446744073709551614
           (median 18446744073709551614 18446744073709551615) 18446744073709551615 = Some n)"
  using median_ceiling_bisect_terminates
    [of 18446744073709551614 18446744073709551615 "\<lambda>k. True"]
  by (simp add: median_def)

lemma is_constructible_unat:
  "is_aggregate_v T \<Longrightarrow> is_constructible T k = (unat k \<le> init_capacity T)"
  by (simp add: is_constructible_def constructible_from_def index_sequence_def)

text \<open>
  Claim C4. Let the constructibility test be monotone on \<open>[0, B]\<close>: true for all
  \<open>k \<le> N\<close> and false for all \<open>k > N\<close>, for some \<open>N \<le> B\<close> (so it is true at 0). Then
  the search started as \<^verbatim>\<open>count_data_members\<close> starts it, \<open>bisect p 0 (median 0 B) B\<close>,
  returns, and returns exactly \<open>N\<close>, the largest \<open>k\<close> in \<open>[0, B]\<close> that passes the test.
  The only branch of \<open>bisect\<close> that returns is the one for \<open>L = R\<close>.
\<close>

theorem bisect_finds_largest_constructible:
  assumes "N \<le> B" and "\<forall>k. k \<le> B \<longrightarrow> p k = (k \<le> N)"
  shows "bisect p 0 (median 0 B) B = Some N \<and> p N \<and> (\<forall>k. k \<le> B \<and> p k \<longrightarrow> k \<le> N)"
proof -
  have "bisect p 0 (median 0 B) B = Some N"
    using assms by (intro bisect_threshold) auto
  then show ?thesis using assms by auto
qed

theorem bisect_finds_largest_constructible_witness:
  "(3 :: size_t) \<le> 96 \<and> bisect (is_constructible point3) 0 (median 0 96) 96 = Some 3
   \<and> is_constructible point3 3"
proof -
  have h1: "(3 :: size_t) \<le> 96" by simp
  have c: "init_capacity point3 = 3"
    by (simp add: init_capacity_def point3_def)
  have a: "is_aggregate_v point3"
    by (simp add: is_aggregate_v_def point3_def)
  have h2: "\<forall>k. k \<le> 96 \<longrightarrow> is_constructible point3 k = (k \<le> 3)"
    by (simp add: is_constructible_unat [OF a] c word_le_nat_alt)
  show ?thesis
    using h1 bisect_finds_largest_constructible [OF h1 h2] by simp
qed

section \<open>The concept\<close>

text \<open>
  Claim C5. \<open>reflexible T\<close> holds if and only if \<open>T\<close> is an aggregate, is
  default-initializable, and is copy-constructible or move-constructible; a class of
  the kind described here is an aggregate exactly when it has no user-declared or
  inherited constructor. Consequently a type with a user-declared constructor is
  rejected whatever its members and its size are.
\<close>

theorem reflexible_iff:
  "reflexible T =
     (is_aggregate_v T \<and> default_initializable T \<and>
      (copy_constructible T \<or> move_constructible T))
   \<and> is_aggregate_v T = (user_declared_ctors T = 0)
   \<and> (0 < user_declared_ctors T \<longrightarrow> \<not> reflexible (T\<lparr>members := ms, sizeof := s\<rparr>))"
  by (auto simp: reflexible_def is_aggregate_v_def)

theorem reflexible_iff_witness:
  "0 < user_declared_ctors with_ctor \<and> \<not> reflexible with_ctor \<and> reflexible point3"
proof -
  have h: "0 < user_declared_ctors with_ctor" by (simp add: with_ctor_def)
  have e: "with_ctor\<lparr>members := [Object, Object], sizeof := 8\<rparr> = with_ctor"
    by (simp add: with_ctor_def)
  have p: "reflexible point3"
    using reflexible_iff [where T = point3 and ms = "[]" and s = 0]
    by (simp add: point3_def is_aggregate_v_def)
  show ?thesis
    using h e p reflexible_iff [where T = with_ctor and ms = "[Object, Object]" and s = 8]
    by simp
qed

section \<open>The constructibility test\<close>

lemma capacity_plain: "\<forall>m\<in>set ms. m = Object \<Longrightarrow> sum_list (map slots ms) = length ms"
  by (induction ms) simp_all

lemma init_capacity_plain:
  "\<forall>m\<in>set (members T). m = Object \<Longrightarrow> init_capacity T = length (members T)"
  by (simp add: init_capacity_def capacity_plain)

lemma reflexible_aggregate: "reflexible T \<Longrightarrow> is_aggregate_v T"
  by (simp add: reflexible_def)



text \<open>
  A class that is not an aggregate is outside the claim. \<open>with_ctor\<close> declares its
  default constructor only: no probe list but the empty one constructs it, although
  it has two members.
\<close>

lemma is_constructible_with_ctor:
  "is_constructible with_ctor 0 \<and> \<not> is_constructible with_ctor 1
   \<and> \<not> is_constructible with_ctor 2"
  by code_simp


section \<open>The member count\<close>

text \<open>When the \<^verbatim>\<open>static_assert\<close> holds, the product did not wrap around.\<close>

lemma static_assert_no_wrap:
  assumes "sizeof T \<noteq> 0" and "bit_size T div sizeof T = CHAR_BIT"
  shows "unat (bit_size T) = unat (sizeof T) * 8"
proof -
  let ?s = "unat (sizeof T)"
  have s0: "0 < ?s" using assms(1) by (simp add: unat_gt_0)
  have s: "?s < 2 ^ 64" using unsigned_less [of "sizeof T"] by simp
  have b: "unat (bit_size T) = (?s * 8) mod 2 ^ 64"
    by (simp add: bit_size_def CHAR_BIT_def unat_word_ariths)
  have "unat (bit_size T div sizeof T) = 8"
    using assms(2) by (simp add: CHAR_BIT_def)
  then have q: "((?s * 8) mod 2 ^ 64) div ?s = 8"
    by (simp add: unat_div b)
  show ?thesis
  proof (cases "?s * 8 < 2 ^ 64")
    case True
    then show ?thesis using b by simp
  next
    case False
    then have "(?s * 8) mod 2 ^ 64 \<le> ?s * 8 - 2 ^ 64"
      by (metis le_mod_geq linorder_not_less mod_less_eq_dividend)
    also have "\<dots> < ?s * 7" using s s0 by linarith
    finally have "((?s * 8) mod 2 ^ 64) div ?s < 7"
      using s0 by (simp add: less_mult_imp_div_less mult.commute)
    with q show ?thesis by simp
  qed
qed

lemma count_data_members_returns:
  "count_data_members T \<noteq> Inl InstantiationDiverges"
  using bisect_returns [of 0 "bit_size T" "is_constructible T"]
  by (auto simp: count_data_members_def)

text \<open>
  The search cannot return more than its upper bound: for an aggregate whose
  \<^verbatim>\<open>static_assert\<close> holds, \<open>count_data_members\<close> is the smaller of the number of
  initializer clauses the type accepts and its bit size.
\<close>

lemma count_data_members_min:
  assumes "is_aggregate_v T" and "sizeof T \<noteq> 0" and "bit_size T div sizeof T = CHAR_BIT"
  shows "count_data_members T = Inr (of_nat (min (init_capacity T) (unat (bit_size T))))"
proof -
  let ?n = "min (init_capacity T) (unat (bit_size T))"
  let ?N = "of_nat ?n :: size_t"
  have "unat (bit_size T) < 2 ^ 64"
    using unsigned_less [of "bit_size T"] by simp
  then have "?n < 2 ^ 64"
    by simp
  then have u: "unat ?N = ?n"
    by (simp add: unat_of_nat)
  have NB: "?N \<le> bit_size T"
    using u by (simp add: word_le_nat_alt)
  have "\<forall>k. 0 \<le> k \<and> k \<le> bit_size T \<longrightarrow> is_constructible T k = (k \<le> ?N)"
    using u by (auto simp: is_constructible_unat [OF assms(1)] word_le_nat_alt)
  then have "bisect (is_constructible T) 0 (median 0 (bit_size T)) (bit_size T) = Some ?N"
    using NB by (intro bisect_threshold) simp_all
  then show ?thesis
    using assms(2,3) by (simp add: count_data_members_def)
qed

lemma count_data_members_capacity:
  assumes "is_aggregate_v T" and "sizeof T \<noteq> 0" and "bit_size T div sizeof T = CHAR_BIT"
    and "init_capacity T \<le> unat (bit_size T)"
  shows "count_data_members T = Inr (of_nat (init_capacity T))"
  using count_data_members_min [OF assms(1-3)] assms(4) by (simp add: min_absorb1)

lemma data_member_count_capacity:
  assumes "reflexible T" and "sizeof T \<noteq> 0" and "bit_size T div sizeof T = CHAR_BIT"
    and "init_capacity T \<le> unat (bit_size T)"
  shows "data_member_count T = Inr (of_nat (init_capacity T))"
  using assms reflexible_aggregate [OF assms(1)]
  by (simp add: data_member_count_def count_data_members_capacity)

lemma data_member_count_min:
  assumes "reflexible T" and "sizeof T \<noteq> 0" and "bit_size T div sizeof T = CHAR_BIT"
  shows "data_member_count T = Inr (of_nat (min (init_capacity T) (unat (bit_size T))))"
  using assms reflexible_aggregate [OF assms(1)]
  by (simp add: data_member_count_def count_data_members_min)

text \<open>
  Claim C6 says that for every reflexible type the upper bound of the search, the bit
  size, is at least the number of non-static data members, so that the interval
  \<open>[0, bit_size]\<close> contains the count. The type \<open>nine_empty\<close> is reflexible and has nine
  members; its size is 1 and its bit size 8; the search ends at its upper bound and
  \<open>data_member_count\<close> is 8.
\<close>

theorem bit_size_nine_empty:
  "reflexible nine_empty \<and> length (members nine_empty) = 9
   \<and> bit_size nine_empty div sizeof nine_empty = CHAR_BIT
   \<and> unat (bit_size nine_empty) = 8
   \<and> \<not> length (members nine_empty) \<le> unat (bit_size nine_empty)
   \<and> data_member_count nine_empty = Inr 8"
  by code_simp

text \<open>
  What \<open>data_member_count\<close> computes in general. For a reflexible type whose
  \<^verbatim>\<open>static_assert\<close> holds and whose bit size is no smaller than the number of
  initializer clauses it accepts, the result is that number. It is the number of
  members when no member is an array.
\<close>

lemma data_member_count_is_init_capacity:
  assumes "reflexible T" and "sizeof T \<noteq> 0" and "bit_size T div sizeof T = CHAR_BIT"
    and "init_capacity T \<le> unat (bit_size T)"
  shows "data_member_count T = Inr (of_nat (init_capacity T))
    \<and> ((\<forall>m\<in>set (members T). m = Object) \<longrightarrow>
         data_member_count T = Inr (of_nat (length (members T))))"
  using data_member_count_capacity [OF assms] init_capacity_plain [of T] by auto

lemma data_member_count_point3:
  "reflexible point3 \<and> length (members point3) = 3 \<and> data_member_count point3 = Inr 3"
proof -
  have h1: "reflexible point3" by code_simp
  have h2: "sizeof point3 \<noteq> 0" by code_simp
  have h3: "bit_size point3 div sizeof point3 = CHAR_BIT" by code_simp
  have h4: "init_capacity point3 \<le> unat (bit_size point3)" by code_simp
  have m: "\<forall>m\<in>set (members point3). m = Object" by (simp add: point3_def)
  have l: "length (members point3) = 3" by (simp add: point3_def)
  have "data_member_count point3 = Inr (of_nat (length (members point3)))"
    using m data_member_count_is_init_capacity [OF h1 h2 h3 h4] by blast
  then show ?thesis
    using h1 l by simp
qed

text \<open>
  Claim C1 says that \<open>data_member_count\<close> is exactly the number of non-static data
  members of every reflexible type with at most as many members as \<open>reflect\<close>
  supports. The type \<open>int_pair\<close> is reflexible and has one member, an array of two;
  the search returns 2 for it, the number of probes that construct it.
\<close>

theorem data_member_count_int_pair:
  "reflexible int_pair \<and> length (members int_pair) = 1
   \<and> data_member_count int_pair = Inr 2
   \<and> data_member_count int_pair \<noteq> Inr (of_nat (length (members int_pair)))"
  by code_simp

section \<open>The tuple of references\<close>

lemma reflect_cases:
  assumes "data_member_count (class_of x) = Inr N"
  shows "reflect limit x =
     (if \<not> N \<le> limit then Inl ConstraintNotSatisfied
      else if N = 0 then Inr []
      else if unat N = length (members (class_of x)) then Inr (member_addrs x)
      else Inl IllFormedBinding)"
  using assms by (simp add: reflect_def structured_binding_def tie_def)

lemma reflect_members:
  assumes "data_member_count (class_of x) = Inr N" and "N \<le> limit"
    and "unat N = length (members (class_of x))"
    and "length (member_addrs x) = length (members (class_of x))"
  shows "reflect limit x = Inr (member_addrs x)"
proof (cases "N = 0")
  case True
  then have "member_addrs x = []" using assms(3,4) by simp
  then show ?thesis using assms(1,2) True by (simp add: reflect_def)
next
  case False
  then show ?thesis
    using assms by (simp add: reflect_def structured_binding_def tie_def)
qed

text \<open>
  When the computed count \<open>N\<close> is the number of members of the class of \<open>x\<close> and is
  within the limit, \<open>reflect\<close> returns the storage of the members themselves, in
  declaration order: \<open>N\<close> references, the \<open>i\<close>-th to the \<open>i\<close>-th member. It takes no
  store and returns none, so it copies no value.
\<close>

lemma reflect_yields_member_references:
  assumes "data_member_count (class_of x) = Inr N"
    and "unat N = length (members (class_of x))"
    and "length (member_addrs x) = length (members (class_of x))"
  shows "(N \<le> limit \<longrightarrow> reflect limit x = Inr (member_addrs x))
    \<and> (N \<le> 127 \<longrightarrow> reflect_header x = Inr (member_addrs x))
    \<and> (N \<le> 32 \<longrightarrow> reflect_module x = Inr (member_addrs x))
    \<and> length (member_addrs x) = unat N"
  using reflect_members [OF assms(1) _ assms(2,3)] assms(2,3)
  by (simp add: reflect_header_def reflect_module_def)

lemma reflect_point3:
  "data_member_count (class_of point3_obj) = Inr 3
   \<and> reflect_header point3_obj = Inr [100, 104, 108]
   \<and> reflect_module point3_obj = Inr [100, 104, 108]"
proof -
  have h1: "data_member_count (class_of point3_obj) = Inr 3" by code_simp
  have h2: "unat (3 :: size_t) = length (members (class_of point3_obj))" by code_simp
  have h3: "length (member_addrs point3_obj) = length (members (class_of point3_obj))"
    by code_simp
  have a: "member_addrs point3_obj = [100, 104, 108]" by (simp add: point3_obj_def)
  show ?thesis
    using h1 a reflect_yields_member_references [OF h1 h2 h3, of 3] by simp
qed

text \<open>
  Claim C2 says that for every reflexible type with \<open>data_member_count = N\<close> within
  the limit and every object of it, \<open>reflect\<close> returns \<open>N\<close> references to the
  members. For an object of \<open>int_pair\<close> the count is 2, within the limit, so the branch
  for 2 is taken; it binds two names to an object with one member, which is ill-formed,
  and \<open>reflect\<close> returns nothing.
\<close>

theorem reflect_header_int_pair:
  "reflexible (class_of int_pair_obj) \<and> instance_ok int_pair_obj
   \<and> data_member_count (class_of int_pair_obj) = Inr 2 \<and> (2 :: size_t) \<le> 127
   \<and> reflect_header int_pair_obj = Inl IllFormedBinding"
  by code_simp

text \<open>
  The constraint and the limit. With the count \<open>N\<close> computed, the header variant is
  rejected by its constraint exactly when \<open>127 < N\<close> and the module variant exactly when
  \<open>32 < N\<close>; a call is well-formed exactly when \<open>N\<close> is within the limit and is 0 or
  the number of members which the structured binding sees; and for \<open>N \<le> 32\<close> the two
  variants give the same result. Every failure is an error of the compilation.
\<close>

lemma reflect_constraint_ceiling:
  assumes "data_member_count (class_of x) = Inr N"
  shows "(reflect_header x = Inl ConstraintNotSatisfied) = (127 < N)
    \<and> (reflect_module x = Inl ConstraintNotSatisfied) = (32 < N)
    \<and> (\<exists>rs. reflect_header x = Inr rs) =
        (N \<le> 127 \<and> (N = 0 \<or> unat N = length (members (class_of x))))
    \<and> (\<exists>rs. reflect_module x = Inr rs) =
        (N \<le> 32 \<and> (N = 0 \<or> unat N = length (members (class_of x))))
    \<and> (N \<le> 32 \<longrightarrow> reflect_module x = reflect_header x)"
proof -
  have le: "N \<le> 32 \<Longrightarrow> N \<le> 127"
    by (simp add: word_le_nat_alt)
  show ?thesis
    unfolding reflect_header_def reflect_module_def reflect_cases [OF assms]
    using le by (auto simp: not_le)
qed

lemma reflect_wide:
  "data_member_count (class_of wide_obj) = Inr 33
   \<and> reflect_module wide_obj = Inl ConstraintNotSatisfied
   \<and> (\<exists>rs. reflect_header wide_obj = Inr rs)"
proof -
  have h: "data_member_count (class_of wide_obj) = Inr 33" by code_simp
  have l: "unat (33 :: size_t) = length (members (class_of wide_obj))" by code_simp
  show ?thesis
    using h l reflect_constraint_ceiling [OF h] by simp
qed

text \<open>
  Claim C7 says that \<open>reflect\<close> is well-formed for a reflexible type exactly when
  \<open>data_member_count\<close> is at most the limit. For an object of \<open>int_pair\<close> the count is
  2, below the limit 32 of the module variant; the constraint is satisfied, and the call
  is ill-formed all the same.
\<close>

theorem reflect_module_int_pair:
  "reflexible (class_of int_pair_obj)
   \<and> data_member_count (class_of int_pair_obj) = Inr 2 \<and> (2 :: size_t) \<le> 32
   \<and> reflect_module int_pair_obj = Inl IllFormedBinding"
  by code_simp



text \<open>
  Claim C9. For every reflexible type without non-static data members,
  \<open>data_member_count\<close> is 0 and \<open>reflect\<close>, in either variant and for any limit,
  returns the empty tuple for every object of it. The \<^verbatim>\<open>static_assert\<close> of
  \<^verbatim>\<open>count_data_members\<close> is taken to hold: the size of a class without members is
  its alignment, whose product with \<^verbatim>\<open>CHAR_BIT\<close> is far from wrapping around.
\<close>

theorem empty_aggregate_count_and_reflect:
  assumes "reflexible (class_of x)" and "members (class_of x) = []"
    and "sizeof (class_of x) \<noteq> 0"
    and "bit_size (class_of x) div sizeof (class_of x) = CHAR_BIT"
  shows "data_member_count (class_of x) = Inr 0
    \<and> reflect_header x = Inr [] \<and> reflect_module x = Inr [] \<and> reflect limit x = Inr []"
proof -
  have "init_capacity (class_of x) = 0"
    using assms(2) by (simp add: init_capacity_def)
  then have "data_member_count (class_of x) = Inr 0"
    using data_member_count_capacity [OF assms(1,3,4)] by simp
  then show ?thesis
    by (simp add: reflect_header_def reflect_module_def reflect_def)
qed

theorem empty_aggregate_count_and_reflect_witness:
  "reflexible (class_of empty_struct_obj) \<and> members (class_of empty_struct_obj) = []
   \<and> data_member_count (class_of empty_struct_obj) = Inr 0
   \<and> reflect_header empty_struct_obj = Inr [] \<and> reflect_module empty_struct_obj = Inr []"
proof -
  have h1: "reflexible (class_of empty_struct_obj)" by code_simp
  have h2: "members (class_of empty_struct_obj) = []" by code_simp
  have h3: "sizeof (class_of empty_struct_obj) \<noteq> 0" by code_simp
  have h4: "bit_size (class_of empty_struct_obj) div sizeof (class_of empty_struct_obj) = CHAR_BIT"
    by code_simp
  show ?thesis
    using h1 h2 empty_aggregate_count_and_reflect [OF h1 h2 h3 h4] by simp
qed

end
